theory Spec2Isabelle
  imports Complex_Main "HOL-Library.AList" "HOL-Library.Sublist"
begin

section \<open>Python values, objects and the store\<close>

text \<open>
  The server keeps its preset table in the module-level dictionary \<open>PRESETS\<close>. Its
  values are dictionaries that hold numbers, strings and a list of band dictionaries.
  Dictionaries and lists are objects with an identity: a variable holds a reference, and
  \<open>dict.copy\<close> makes a new object whose entries still refer to the old nested objects.
  The store is therefore explicit: a list of objects, an address being an index into it.

  A Python \<open>float\<close> is modelled by the exact rational it is meant to denote, so
  \<open>x / 10\<close> is the exact quotient; rounding, infinities and NaN are left out.
  Booleans and the other types of Python are not among the values.
\<close>

type_synonym addr = nat

datatype pyval = VNone | VInt int | VFloat rat | VStr string | VRef addr

type_synonym dict = "(string \<times> pyval) list"

datatype pyobj = ODict dict | OList "pyval list"

type_synonym heap = "pyobj list"

datatype exc =
    ValueError string
  | KeyError string
  | TypeError
  | AttributeError
  | OSError string
  | Exception string

definition bnd :: "exc + 'a \<Rightarrow> ('a \<Rightarrow> exc + 'b) \<Rightarrow> exc + 'b" where
  "bnd m f = (case m of Inl e \<Rightarrow> Inl e | Inr v \<Rightarrow> f v)"

definition deref :: "heap \<Rightarrow> addr \<Rightarrow> pyobj option" where
  "deref h a = (if a < length h then Some (h ! a) else None)"

definition alloc :: "pyobj \<Rightarrow> heap \<Rightarrow> addr \<times> heap" where
  "alloc obj h = (length h, h @ [obj])"

text \<open>\<open>d[k]\<close>: a missing key raises \<open>KeyError\<close>.\<close>

definition getitem :: "dict \<Rightarrow> string \<Rightarrow> exc + pyval" where
  "getitem d k = (case map_of d k of None \<Rightarrow> Inl (KeyError k) | Some v \<Rightarrow> Inr v)"

text \<open>\<open>d.update(other)\<close>: every entry of \<open>other\<close> is stored into \<open>d\<close>, in order;
  a key already present keeps its position, a new key goes to the end.\<close>

definition dict_update :: "dict \<Rightarrow> dict \<Rightarrow> dict" where
  "dict_update d other = fold (\<lambda>(k, v) acc. AList.update k v acc) other d"

text \<open>\<open>v > n\<close> and \<open>v < n\<close> for an integer literal \<open>n\<close>: defined on numbers only.\<close>

fun py_gt :: "pyval \<Rightarrow> int \<Rightarrow> exc + bool" where
  "py_gt (VInt i) n = Inr (i > n)"
| "py_gt (VFloat q) n = Inr (q > of_int n)"
| "py_gt _ n = Inl TypeError"

fun py_lt :: "pyval \<Rightarrow> int \<Rightarrow> exc + bool" where
  "py_lt (VInt i) n = Inr (i < n)"
| "py_lt (VFloat q) n = Inr (q < of_int n)"
| "py_lt _ n = Inl TypeError"

text \<open>\<open>min(n, v)\<close> returns its first argument unless \<open>v < n\<close>;
  \<open>max(n, v)\<close> returns its first argument unless \<open>v > n\<close>.\<close>

definition py_min :: "int \<Rightarrow> pyval \<Rightarrow> exc + pyval" where
  "py_min n v = bnd (py_lt v n) (\<lambda>b. Inr (if b then v else VInt n))"

definition py_max :: "int \<Rightarrow> pyval \<Rightarrow> exc + pyval" where
  "py_max n v = bnd (py_gt v n) (\<lambda>b. Inr (if b then v else VInt n))"

text \<open>\<open>v / n\<close> is true division, a float whatever the operands;
  \<open>n + v\<close> keeps an int an int.\<close>

fun py_truediv :: "pyval \<Rightarrow> int \<Rightarrow> exc + pyval" where
  "py_truediv (VInt i) n = Inr (VFloat (of_int i / of_int n))"
| "py_truediv (VFloat q) n = Inr (VFloat (q / of_int n))"
| "py_truediv _ n = Inl TypeError"

fun py_radd :: "int \<Rightarrow> pyval \<Rightarrow> exc + pyval" where
  "py_radd n (VInt i) = Inr (VInt (n + i))"
| "py_radd n (VFloat q) = Inr (VFloat (of_int n + q))"
| "py_radd n _ = Inl TypeError"

text \<open>Truth value of an object in \<open>if v:\<close>.\<close>

fun truthy :: "heap \<Rightarrow> pyval \<Rightarrow> bool" where
  "truthy h VNone = False"
| "truthy h (VInt i) = (i \<noteq> 0)"
| "truthy h (VFloat q) = (q \<noteq> 0)"
| "truthy h (VStr s) = (s \<noteq> [])"
| "truthy h (VRef a) =
     (case deref h a of
        Some (OList xs) \<Rightarrow> xs \<noteq> []
      | Some (ODict d) \<Rightarrow> d \<noteq> []
      | None \<Rightarrow> True)"

text \<open>The elements \<open>for x in v\<close> runs over: a list gives its elements, a dictionary
  its keys, a string its characters; anything else is not iterable.\<close>

fun py_iter :: "heap \<Rightarrow> pyval \<Rightarrow> exc + pyval list" where
  "py_iter h (VRef a) =
     (case deref h a of
        Some (OList xs) \<Rightarrow> Inr xs
      | Some (ODict d) \<Rightarrow> Inr (map (\<lambda>kv. VStr (fst kv)) d)
      | None \<Rightarrow> Inl TypeError)"
| "py_iter h (VStr s) = Inr (map (\<lambda>c. VStr [c]) s)"
| "py_iter h _ = Inl TypeError"

text \<open>\<open>v[k]\<close> for a string key \<open>k\<close>: only a dictionary can be subscripted so.\<close>

fun subscript :: "heap \<Rightarrow> pyval \<Rightarrow> string \<Rightarrow> exc + pyval" where
  "subscript h (VRef a) k =
     (case deref h a of
        Some (ODict d) \<Rightarrow> getitem d k
      | _ \<Rightarrow> Inl TypeError)"
| "subscript h _ k = Inl TypeError"

section \<open>The filter chain\<close>

text \<open>
  \<open>build_ffmpeg_filter\<close> collects format strings in the list \<open>filters\<close> and returns
  them joined by commas. A stage stands for one such format string: the constructor is the
  template, its arguments are the interpolated values and the constants written in the
  template. The list of stages stands for the joined string; how a number is printed is
  left out.
\<close>

datatype stage =
    Highpass pyval
  | Lowpass pyval
  | Afftdn pyval int string
  | Acompressor pyval pyval int int int int
  | Equalizer pyval string pyval "int option"
  | Alimiter rat rat rat
  | Volume rat

text \<open>The fields of the constructors, in order:
  \<open>Afftdn nr nf nt\<close>; \<open>Acompressor threshold ratio attack release makeup knee\<close>;
  \<open>Equalizer f t g w\<close>; \<open>Alimiter level_in level_out limit\<close>.\<close>

definition add_highpass :: "dict \<Rightarrow> stage list \<Rightarrow> exc + stage list" where
  "add_highpass preset filters =
     bnd (getitem preset ''highpass'') (\<lambda>v.
     bnd (py_gt v 0) (\<lambda>b.
     Inr (if b then filters @ [Highpass v] else filters)))"

definition add_lowpass :: "dict \<Rightarrow> stage list \<Rightarrow> exc + stage list" where
  "add_lowpass preset filters =
     bnd (getitem preset ''lowpass'') (\<lambda>v.
     bnd (py_gt v 0) (\<lambda>b.
     Inr (if b then filters @ [Lowpass v] else filters)))"

definition add_noise_reduction :: "dict \<Rightarrow> stage list \<Rightarrow> exc + stage list" where
  "add_noise_reduction preset filters =
     bnd (getitem preset ''noise_reduction'') (\<lambda>v.
     bnd (py_gt v 0) (\<lambda>b.
     if b then Inr (filters @ [Afftdn v (-20) ''w'']) else Inr filters))"

definition add_compressor :: "dict \<Rightarrow> stage list \<Rightarrow> exc + stage list" where
  "add_compressor preset filters =
     bnd (getitem preset ''dynamic_boost'') (\<lambda>v.
     bnd (py_gt v 0) (\<lambda>b.
     if b then
       bnd (bnd (py_truediv v 10) (py_radd 2)) (\<lambda>ratio.
       bnd (bnd (py_truediv v 4) (py_radd (-25))) (\<lambda>threshold.
       Inr (filters @ [Acompressor threshold ratio 10 100 2 2])))
     else Inr filters))"

text \<open>The body of the loop over the bands: the gain is read and limited first, then the
  frequency is read for the format string.\<close>

definition eq_stage :: "heap \<Rightarrow> pyval \<Rightarrow> exc + stage" where
  "eq_stage h band =
     bnd (subscript h band ''gain'') (\<lambda>g.
     bnd (py_min 10 g) (\<lambda>m.
     bnd (py_max (-10) m) (\<lambda>limited_gain.
     bnd (subscript h band ''freq'') (\<lambda>f.
     Inr (Equalizer f ''o'' limited_gain None)))))"

fun eq_loop :: "heap \<Rightarrow> pyval list \<Rightarrow> stage list \<Rightarrow> exc + stage list" where
  "eq_loop h [] filters = Inr filters"
| "eq_loop h (band # bands) filters =
     bnd (eq_stage h band) (\<lambda>s. eq_loop h bands (filters @ [s]))"

definition add_equalizer :: "heap \<Rightarrow> dict \<Rightarrow> stage list \<Rightarrow> exc + stage list" where
  "add_equalizer h preset filters =
     bnd (getitem preset ''eq_bands'') (\<lambda>v.
     if truthy h v then bnd (py_iter h v) (\<lambda>bands. eq_loop h bands filters)
     else Inr filters)"

definition add_voice_emphasis :: "dict \<Rightarrow> stage list \<Rightarrow> exc + stage list" where
  "add_voice_emphasis preset filters =
     bnd (getitem preset ''voice_emphasis'') (\<lambda>v.
     bnd (py_gt v 0) (\<lambda>b.
     if b then
       bnd (py_min 6 v) (\<lambda>voice_gain.
       Inr (filters @ [Equalizer (VInt 1000) ''o'' voice_gain (Some 800)]))
     else Inr filters))"

definition limiter :: stage where
  "limiter = Alimiter 1 (95 / 100) (95 / 100)"

definition output_gain :: stage where
  "output_gain = Volume (12 / 10)"

text \<open>Lines 145 to 188: the chain for the merged preset dictionary.\<close>

definition filter_stages :: "heap \<Rightarrow> dict \<Rightarrow> exc + stage list" where
  "filter_stages h preset =
     bnd (add_highpass preset []) (\<lambda>f1.
     bnd (add_lowpass preset f1) (\<lambda>f2.
     bnd (add_noise_reduction preset f2) (\<lambda>f3.
     bnd (add_compressor preset f3) (\<lambda>f4.
     bnd (add_equalizer h preset f4) (\<lambda>f5.
     bnd (add_voice_emphasis preset f5) (\<lambda>f6.
     Inr (f6 @ [limiter] @ [output_gain])))))))"

section \<open>The catalog and the lookup\<close>

record state =
  heap :: heap
  PRESETS :: addr

definition catalog :: "state \<Rightarrow> dict" where
  "catalog s = (case deref (heap s) (PRESETS s) of Some (ODict d) \<Rightarrow> d | _ \<Rightarrow> [])"

text \<open>\<open>v.copy()\<close> makes a new object with the entries of the old one; the nested
  objects are shared. Numbers, strings and \<open>None\<close> have no such method.\<close>

definition copy_object :: "heap \<Rightarrow> pyval \<Rightarrow> exc + (addr \<times> heap)" where
  "copy_object h v =
     (case v of
        VRef a \<Rightarrow> (case deref h a of Some obj \<Rightarrow> Inr (alloc obj h) | None \<Rightarrow> Inl AttributeError)
      | _ \<Rightarrow> Inl AttributeError)"

text \<open>\<open>v.update(other)\<close> changes the dictionary at the address in place; a list has
  no such method.\<close>

definition update_object :: "addr \<Rightarrow> dict \<Rightarrow> heap \<Rightarrow> exc + heap" where
  "update_object a other h =
     (case deref h a of
        Some (ODict d) \<Rightarrow> Inr (h[a := ODict (dict_update d other)])
      | _ \<Rightarrow> Inl AttributeError)"

text \<open>Lines 133 to 188. The name is looked up in \<open>PRESETS\<close>, the entry is copied
  into a new object and the new object is updated with the overrides;
  \<open>custom_params\<close> is \<open>None\<close> or a dictionary, and \<open>if custom_params:\<close> skips both
  \<open>None\<close> and the empty dictionary. The chain is built from the new object; an
  object that is not a dictionary cannot be read by a key.\<close>

definition build_ffmpeg_filter ::
    "string \<Rightarrow> dict option \<Rightarrow> state \<Rightarrow> (exc + stage list) \<times> state" where
  "build_ffmpeg_filter preset_name custom_params s =
     (case map_of (catalog s) preset_name of
        None \<Rightarrow> (Inl (ValueError (''Unknown preset: '' @ preset_name)), s)
      | Some entry \<Rightarrow>
          (case copy_object (heap s) entry of
             Inl e \<Rightarrow> (Inl e, s)
           | Inr (preset, h1) \<Rightarrow>
              (case (case custom_params of
                       None \<Rightarrow> Inr h1
                     | Some cp \<Rightarrow>
                        (if cp \<noteq> [] then update_object preset cp h1 else Inr h1)) of
                 Inl e \<Rightarrow> (Inl e, s\<lparr>heap := h1\<rparr>)
               | Inr h2 \<Rightarrow>
                  (case deref h2 preset of
                     Some (ODict merged) \<Rightarrow> (filter_stages h2 merged, s\<lparr>heap := h2\<rparr>)
                   | _ \<Rightarrow> (Inl TypeError, s\<lparr>heap := h2\<rparr>)))))"

section \<open>The preset table of the module\<close>

text \<open>Lines 43 to 131. Evaluating the dictionary display allocates, for each preset,
  its band dictionaries, then the list of bands, then the preset dictionary; the table
  itself comes last.\<close>

fun alloc_bands :: "(int \<times> int) list \<Rightarrow> heap \<Rightarrow> pyval list \<times> heap" where
  "alloc_bands [] h = ([], h)"
| "alloc_bands ((f, g) # bs) h =
     (let (a, h1) = alloc (ODict [(''freq'', VInt f), (''gain'', VInt g)]) h;
          (vs, h2) = alloc_bands bs h1
      in (VRef a # vs, h2))"

definition alloc_preset ::
    "string \<Rightarrow> string \<Rightarrow> int \<Rightarrow> int \<Rightarrow> rat \<Rightarrow> int \<Rightarrow> int \<Rightarrow> (int \<times> int) list
     \<Rightarrow> heap \<Rightarrow> pyval \<times> heap" where
  "alloc_preset nm description hp lp nr db ve bands h =
     (let (vs, h1) = alloc_bands bands h;
          (l, h2) = alloc (OList vs) h1;
          (p, h3) = alloc (ODict
             [(''name'', VStr nm),
              (''description'', VStr description),
              (''highpass'', VInt hp),
              (''lowpass'', VInt lp),
              (''noise_reduction'', VFloat nr),
              (''dynamic_boost'', VInt db),
              (''voice_emphasis'', VInt ve),
              (''eq_bands'', VRef l)]) h2
      in (VRef p, h3))"

definition initial_state :: state where
  "initial_state =
     (let (whisper, h1) = alloc_preset ''Whisper Mode''
            ''Optimized for whispers, minimal white noise (30-3500 Hz)''
            30 3500 (5 / 10) 8 4
            [(100, -3), (300, 2), (1000, 3), (2000, 2)] [];
          (breath, h2) = alloc_preset ''Breath Detection''
            ''Optimized for breathing, minimal processing (100-2000 Hz)''
            100 2000 (3 / 10) 12 2
            [(200, 2), (500, 3), (1000, 2)] h1;
          (vocal, h3) = alloc_preset ''Vocal Isolation''
            ''Optimized for vocal sounds, balanced processing (80-8000 Hz)''
            80 8000 (4 / 10) 6 5
            [(150, 1), (400, 3), (1000, 4), (2000, 3)] h2;
          (tv_suppress, h4) = alloc_preset ''TV Suppression''
            ''TV background suppression, minimal artifacts (200-4000 Hz)''
            200 4000 (6 / 10) 10 6
            [(60, -8), (120, -5), (500, 4), (1500, 5), (3000, 3)] h3;
          (clean_whisper, h5) = alloc_preset ''Clean Whisper''
            ''Minimal processing for very clean whisper enhancement''
            50 4000 (2 / 10) 4 2
            [(250, 2), (500, 3), (1000, 2)] h4;
          (gentle_enhance, h6) = alloc_preset ''Gentle Enhancement''
            ''Minimal processing for slight audio improvement''
            40 6000 (1 / 10) 2 1
            [(300, 1), (1000, 2)] h5;
          (t, h7) = alloc (ODict
             [(''whisper'', whisper),
              (''breath'', breath),
              (''vocal'', vocal),
              (''tv_suppress'', tv_suppress),
              (''clean_whisper'', clean_whisper),
              (''gentle_enhance'', gentle_enhance)]) h6
      in \<lparr>heap = h7, PRESETS = t\<rparr>)"

fun is_number :: "pyval \<Rightarrow> bool" where
  "is_number (VInt i) = True"
| "is_number (VFloat q) = True"
| "is_number _ = False"

fun num_of :: "pyval \<Rightarrow> rat" where
  "num_of (VInt i) = of_int i"
| "num_of (VFloat q) = q"
| "num_of _ = 0"






fun is_band_eq :: "stage \<Rightarrow> bool" where
  "is_band_eq (Equalizer f t g None) = True"
| "is_band_eq _ = False"

definition compressor_of :: "pyval \<Rightarrow> stage" where
  "compressor_of v =
     Acompressor (VFloat (- 25 + num_of v / 4)) (VFloat (2 + num_of v / 10)) 10 100 2 2"





definition merge_overrides :: "dict \<Rightarrow> dict option \<Rightarrow> dict" where
  "merge_overrides d custom_params =
     (case custom_params of None \<Rightarrow> d | Some cp \<Rightarrow> dict_update d cp)"





section \<open>Paths and time stamps\<close>

text \<open>
  A path is the list of its components below the root. \<open>Path(...) / s\<close> splits the
  string at the slashes and drops the empty components and the components \<open>.\<close>; a
  component \<open>..\<close> is kept as it is. A string that starts with a slash replaces the path.
\<close>

type_synonym path = "string list"

fun split_slash :: "string \<Rightarrow> string list" where
  "split_slash [] = [[]]"
| "split_slash (c # cs) =
     (if c = CHR ''/'' then [] # split_slash cs
      else (case split_slash cs of [] \<Rightarrow> [[c]] | p # ps \<Rightarrow> (c # p) # ps))"

definition parts :: "string \<Rightarrow> path" where
  "parts s = filter (\<lambda>c. c \<noteq> [] \<and> c \<noteq> ''.'') (split_slash s)"

definition path_div :: "path \<Rightarrow> string \<Rightarrow> path" where
  "path_div p s =
     (case s of
        [] \<Rightarrow> p
      | c # cs \<Rightarrow> if c = CHR ''/'' then parts s else p @ parts s)"

definition path_str :: "path \<Rightarrow> string" where
  "path_str p = (if p = [] then ''/'' else concat (map (\<lambda>c. CHR ''/'' # c) p))"

definition TEMP_DIR :: path where
  "TEMP_DIR = [''tmp'', ''audio_processing'']"

text \<open>\<open>datetime.now().strftime("%Y%m%d_%H%M%S")\<close>: the microsecond of the clock is not
  part of the format. The year is taken to have at most four digits.\<close>

record datetime =
  year :: nat
  month :: nat
  day :: nat
  hour :: nat
  minute :: nat
  second :: nat
  microsecond :: nat

definition digit :: "nat \<Rightarrow> char" where
  "digit n = ''0123456789'' ! (n mod 10)"

definition pad2 :: "nat \<Rightarrow> string" where
  "pad2 n = [digit (n div 10), digit n]"

definition pad4 :: "nat \<Rightarrow> string" where
  "pad4 n = [digit (n div 1000), digit (n div 100), digit (n div 10), digit n]"

definition strftime :: "datetime \<Rightarrow> string" where
  "strftime t =
     pad4 (year t) @ pad2 (month t) @ pad2 (day t) @ ''_'' @
     pad2 (hour t) @ pad2 (minute t) @ pad2 (second t)"

text \<open>An upload: \<open>file.filename\<close> is the name the client sent, or \<open>None\<close>, which an
  f-string prints as \<open>None\<close>.\<close>

record upload =
  filename :: "string option"
  content :: string

definition fstr :: "string option \<Rightarrow> string" where
  "fstr v = (case v of None \<Rightarrow> ''None'' | Some s \<Rightarrow> s)"

text \<open>Lines 677 to 679.\<close>

definition input_path :: "datetime \<Rightarrow> string option \<Rightarrow> path" where
  "input_path t fn = path_div TEMP_DIR (''input_'' @ strftime t @ ''_'' @ fstr fn)"

definition output_path :: "datetime \<Rightarrow> path" where
  "output_path t = path_div TEMP_DIR (''output_'' @ strftime t @ ''.wav'')"

section \<open>The world around a request\<close>

text \<open>
  What the handler cannot decide is an answer of the environment: the clock, whether the
  scratch file can be opened and written, what the two tools return and whether the
  transform leaves a file at its output path, and whether the input can be unlinked.
  The JSON parser is the function \<open>parse_duration\<close> of the standard output of the probe.

  The handler acts on the files below the scratch directory, runs external commands and
  calls the chain builder, so the world holds the files (path to content), the commands
  run so far and the store. A command stands for an argument vector:
  \<open>FfmpegVersion\<close> for \<open>ffmpeg -version\<close>, \<open>Ffprobe p\<close> for the probe of \<open>p\<close>, and
  \<open>FfmpegTransform i c o\<close> for \<open>ffmpeg -y -i i -af c -c:a pcm_s16le -ar 44100 -ac 2 o\<close>.
\<close>

record proc =
  returncode :: int
  stdout :: string
  stderr :: string

record env =
  now :: datetime
  open_error :: "exc option"
  write_error :: "exc option"
  ffmpeg_available :: bool
  probe_run :: "exc + proc"
  parse_duration :: "string \<Rightarrow> exc + rat"
  ffmpeg_run :: "exc + proc"
  ffmpeg_writes :: "string option"
  processing_time :: rat
  unlink_ok :: bool

datatype command =
    FfmpegVersion
  | Ffprobe path
  | FfmpegTransform path "stage list" path

record world =
  files :: "path \<Rightarrow> string option"
  runs :: "command list"
  python :: state

section \<open>Processing one file\<close>

text \<open>The result dictionary of \<open>process_audio_file\<close>: the fields of \<open>Success\<close> are
  \<open>input_duration\<close>, \<open>processing_time\<close>, \<open>output_size\<close>, \<open>preset_used\<close> and
  \<open>filter_chain\<close>; \<open>Failure e\<close> is the dictionary whose \<open>error\<close> is \<open>str(e)\<close>.\<close>

datatype file_result =
    Success rat rat nat string "stage list"
  | Failure exc

text \<open>Line 230: the transform is run; the environment says what it returns and what it
  leaves at the output path.\<close>

definition run_transform ::
    "env \<Rightarrow> path \<Rightarrow> path \<Rightarrow> stage list \<Rightarrow> world \<Rightarrow> (exc + proc) \<times> world" where
  "run_transform e inp outp chain w =
     (let w1 = w\<lparr>runs := runs w @ [FfmpegTransform inp chain outp]\<rparr>
      in (case ffmpeg_run e of
            Inl x \<Rightarrow> (Inl x, w1)
          | Inr r \<Rightarrow>
              (Inr r,
               (case ffmpeg_writes e of
                  None \<Rightarrow> w1
                | Some c \<Rightarrow> w1\<lparr>files := (files w1)(outp \<mapsto> c)\<rparr>))))"

text \<open>Lines 190 to 261. Every exception of the body is caught and becomes a failure
  result.\<close>

definition process_audio_file ::
    "env \<Rightarrow> path \<Rightarrow> path \<Rightarrow> string \<Rightarrow> dict option \<Rightarrow> world \<Rightarrow> file_result \<times> world" where
  "process_audio_file e inp outp preset_name custom_params w =
     (let w1 = w\<lparr>runs := runs w @ [Ffprobe inp]\<rparr>
      in (case probe_run e of
            Inl x \<Rightarrow> (Failure x, w1)
          | Inr r \<Rightarrow>
             (if returncode r \<noteq> 0
              then (Failure (Exception (''Failed to analyze input file: '' @ stderr r)), w1)
              else
               (case parse_duration e (stdout r) of
                  Inl x \<Rightarrow> (Failure x, w1)
                | Inr duration \<Rightarrow>
                   (let (built, s) = build_ffmpeg_filter preset_name custom_params (python w1);
                        w2 = w1\<lparr>python := s\<rparr>
                    in (case built of
                          Inl x \<Rightarrow> (Failure x, w2)
                        | Inr filter_chain \<Rightarrow>
                           (let (res, w3) = run_transform e inp outp filter_chain w2
                            in (case res of
                                  Inl x \<Rightarrow> (Failure x, w3)
                                | Inr r2 \<Rightarrow>
                                   (if returncode r2 \<noteq> 0
                                    then (Failure (Exception
                                            (''FFmpeg processing failed: '' @ stderr r2)), w3)
                                    else
                                     (case files w3 outp of
                                        None \<Rightarrow>
                                          (Failure (Exception
                                             (''Output file was not created: '' @
                                              path_str outp)), w3)
                                      | Some c \<Rightarrow>
                                          (Success duration (processing_time e) (length c)
                                             preset_name filter_chain, w3)))))))))))"

section \<open>The request handler\<close>

text \<open>The detail of an HTTP error is a literal text or \<open>str(e)\<close> of an exception;
  a response is the file response with its path, media type and file name.\<close>

datatype detail = Text string | StrOf exc

datatype http_error = HTTPException nat detail

datatype response = FileResponse path string string

datatype outcome = Completed response | Failed http_error

text \<open>Lines 681 to 725: the body of the \<open>try\<close>. Opening the scratch file for writing
  creates it empty; the upload is read and written next, and \<open>write_error\<close> stands for
  a failure of either. The availability check fails when \<open>ffmpeg -version\<close> cannot be
  run or exits with an error. The handler passes no overrides. Every exception of the
  body leaves it as an \<open>HTTPException\<close> of status 500.\<close>

definition handle_upload ::
    "env \<Rightarrow> upload \<Rightarrow> string \<Rightarrow> path \<Rightarrow> path \<Rightarrow> world \<Rightarrow> outcome \<times> world" where
  "handle_upload e file preset inp outp w =
     (case open_error e of
        Some x \<Rightarrow> (Failed (HTTPException 500 (StrOf x)), w)
      | None \<Rightarrow>
         (let w1 = w\<lparr>files := (files w)(inp \<mapsto> [])\<rparr>
          in (case write_error e of
                Some x \<Rightarrow> (Failed (HTTPException 500 (StrOf x)), w1)
              | None \<Rightarrow>
                 (let w2 = w1\<lparr>files := (files w1)(inp \<mapsto> content file)\<rparr>;
                      w3 = w2\<lparr>runs := runs w2 @ [FfmpegVersion]\<rparr>
                  in (if \<not> ffmpeg_available e
                      then (Failed (HTTPException 500
                              (Text ''FFmpeg is not installed or not working'')), w3)
                      else
                       (let (result, w4) = process_audio_file e inp outp preset None w3
                        in (case result of
                              Failure x \<Rightarrow> (Failed (HTTPException 500 (StrOf x)), w4)
                            | Success duration ptime osize used chain \<Rightarrow>
                               (case files w4 outp of
                                  None \<Rightarrow>
                                    (Failed (HTTPException 500
                                       (Text ''Output file was not created'')), w4)
                                | Some c \<Rightarrow>
                                   (if length c = 0
                                    then (Failed (HTTPException 500
                                            (Text ''Output file is empty'')), w4)
                                    else (Completed (FileResponse outp ''audio/wav''
                                            (''processed_'' @ fstr (filename file))),
                                          w4))))))))))"

text \<open>Lines 727 to 733: the \<open>finally\<close>. An exception of \<open>unlink\<close> is swallowed.\<close>

definition cleanup :: "env \<Rightarrow> path \<Rightarrow> world \<Rightarrow> world" where
  "cleanup e inp w =
     (case files w inp of
        None \<Rightarrow> w
      | Some c \<Rightarrow> if unlink_ok e then w\<lparr>files := (files w)(inp := None)\<rparr> else w)"

definition process_audio :: "env \<Rightarrow> upload \<Rightarrow> string \<Rightarrow> world \<Rightarrow> outcome \<times> world" where
  "process_audio e file preset w =
     (let inp = input_path (now e) (filename file);
          outp = output_path (now e);
          (result, w1) = handle_upload e file preset inp outp w
      in (result, cleanup e inp w1))"

text \<open>Resolving a path by its text: a component \<open>..\<close> leaves the directory before it;
  at the root it stays at the root.\<close>

fun normpath_acc :: "path \<Rightarrow> path \<Rightarrow> path" where
  "normpath_acc acc [] = rev acc"
| "normpath_acc acc (c # cs) =
     (if c = ''..'' then normpath_acc (tl acc) cs else normpath_acc (c # acc) cs)"

definition normpath :: "path \<Rightarrow> path" where
  "normpath p = normpath_acc [] p"

definition inside :: "path \<Rightarrow> path \<Rightarrow> bool" where
  "inside dir p = prefix dir (normpath p)"



section \<open>Auxiliary definitions and sample inputs\<close>

text \<open>The world after the upload is stored and the availability check has run.\<close>

definition upload_stored :: "upload \<Rightarrow> path \<Rightarrow> world \<Rightarrow> world" where
  "upload_stored file inp w =
     w\<lparr>files := (files w)(inp \<mapsto> content file), runs := runs w @ [FfmpegVersion]\<rparr>"

text \<open>A request at noon of the first of January 2024, healthy tools, an empty scratch
  directory and the preset table of the module.\<close>

definition t0 :: datetime where
  "t0 = \<lparr>year = 2024, month = 1, day = 1, hour = 12, minute = 0, second = 0,
          microsecond = 1\<rparr>"

definition healthy_env :: env where
  "healthy_env =
     \<lparr>now = t0, open_error = None, write_error = None, ffmpeg_available = True,
      probe_run = Inr \<lparr>returncode = 0, stdout = ''{}'', stderr = ''''\<rparr>,
      parse_duration = (\<lambda>s. Inr 3),
      ffmpeg_run = Inr \<lparr>returncode = 0, stdout = '''', stderr = ''''\<rparr>,
      ffmpeg_writes = Some ''RIFF'', processing_time = 1, unlink_ok = True\<rparr>"

definition fresh_world :: world where
  "fresh_world = \<lparr>files = (\<lambda>p. None), runs = [], python = initial_state\<rparr>"

definition sample_upload :: upload where
  "sample_upload = \<lparr>filename = Some ''a.wav'', content = ''abc''\<rparr>"

text \<open>The transform exits with 1 and leaves two bytes at the output path.\<close>

definition partial_env :: env where
  "partial_env =
     healthy_env\<lparr>ffmpeg_run := Inr \<lparr>returncode = 1, stdout = '''', stderr = ''boom''\<rparr>,
                 ffmpeg_writes := Some ''RI''\<rparr>"

text \<open>The transform exits with 0, prints a diagnostic and writes nothing.\<close>

definition silent_env :: env where
  "silent_env =
     healthy_env\<lparr>ffmpeg_run := Inr \<lparr>returncode = 0, stdout = '''', stderr = ''boom''\<rparr>,
                 ffmpeg_writes := None\<rparr>"

definition clean_whisper_dict :: dict where
  "clean_whisper_dict =
     [(''name'', VStr ''Clean Whisper''),
      (''description'', VStr ''Minimal processing for very clean whisper enhancement''),
      (''highpass'', VInt 50),
      (''lowpass'', VInt 4000),
      (''noise_reduction'', VFloat (2 / 10)),
      (''dynamic_boost'', VInt 4),
      (''voice_emphasis'', VInt 2),
      (''eq_bands'', VRef 27)]"

definition sample_overrides :: dict where
  "sample_overrides = [(''lowpass'', VInt 8000), (''highpass'', VInt 0)]"

section \<open>Properties of the filter chain\<close>

lemma bnd_Inl [simp]: "bnd (Inl e) f = Inl e" by (simp add: bnd_def)
lemma bnd_Inr [simp]: "bnd (Inr v) f = f v" by (simp add: bnd_def)
lemma bnd_eq_Inr: "bnd m f = Inr r \<longleftrightarrow> (\<exists>v. m = Inr v \<and> f v = Inr r)"
  by (cases m) simp_all

lemma py_gt_number: "is_number v \<Longrightarrow> py_gt v n = Inr (of_int n < num_of v)"
  by (cases v) simp_all
lemma py_lt_number: "is_number v \<Longrightarrow> py_lt v n = Inr (num_of v < of_int n)"
  by (cases v) simp_all
lemma py_gt_Inr: "py_gt v n = Inr b \<Longrightarrow> is_number v"
  by (cases v) simp_all








lemma compressor_params:
  assumes "is_number v"
  shows "bnd (py_truediv v 10) (py_radd 2) = Inr (VFloat (2 + num_of v / 10))"
    and "bnd (py_truediv v 4) (py_radd (- 25)) = Inr (VFloat (- 25 + num_of v / 4))"
  using assms by (cases v; simp)+

lemma add_compressor_Inr:
  assumes "add_compressor d fs = Inr r"
  shows "\<exists>v. getitem d ''dynamic_boost'' = Inr v \<and> is_number v \<and>
             r = fs @ (if 0 < num_of v then [compressor_of v] else [])"
proof -
  from assms obtain v b where v: "getitem d ''dynamic_boost'' = Inr v"
    and b: "py_gt v 0 = Inr b"
    and r: "(if b then
       bnd (bnd (py_truediv v 10) (py_radd 2)) (\<lambda>ratio.
       bnd (bnd (py_truediv v 4) (py_radd (-25))) (\<lambda>threshold.
       Inr (fs @ [Acompressor threshold ratio 10 100 2 2])))
     else Inr fs) = Inr r"
    by (auto simp: add_compressor_def bnd_eq_Inr)
  from b have n: "is_number v" by (rule py_gt_Inr)
  with b have "b = (0 < num_of v)" by (simp add: py_gt_number)
  with r n v show ?thesis
    by (auto simp: compressor_params compressor_of_def split: if_splits)
qed

lemma add_compressor_filters:
  "add_compressor d fs = Inr r \<Longrightarrow> \<exists>ys. r = fs @ ys \<and> filter is_band_eq ys = []"
  by (drule add_compressor_Inr) (auto simp: compressor_of_def)
































section \<open>Properties of the lookup and the merge\<close>

lemma build_unknown:
  "map_of (catalog s) preset_name = None \<Longrightarrow>
     build_ffmpeg_filter preset_name cp s =
       (Inl (ValueError (''Unknown preset: '' @ preset_name)), s)"
  by (simp add: build_ffmpeg_filter_def)

lemma build_heap_grows:
  "\<exists>objs. heap (snd (build_ffmpeg_filter n cp s)) = heap s @ objs \<and>
          PRESETS (snd (build_ffmpeg_filter n cp s)) = PRESETS s"
  by (auto simp: build_ffmpeg_filter_def copy_object_def update_object_def alloc_def deref_def
           list_update_append
           split: option.splits sum.splits pyobj.splits pyval.splits if_splits)

lemma map_of_dict_update:
  "map_of (dict_update d cp) = map_of d ++ map_of (rev cp)"
  unfolding dict_update_def
proof (induction cp arbitrary: d)
  case Nil
  then show ?case by simp
next
  case (Cons kv cp)
  obtain k v where kv: "kv = (k, v)" by (cases kv)
  have "map_of (fold (\<lambda>(k, v). AList.update k v) cp (AList.update k v d)) =
        map_of (AList.update k v d) ++ map_of (rev cp)"
    by (rule Cons.IH)
  then show ?case
    by (simp add: kv update_conv' map_add_def fun_eq_iff split: option.splits)
qed

lemma build_known:
  assumes "map_of (catalog s) n = Some (VRef a)" and "deref (heap s) a = Some (ODict d)"
  shows "build_ffmpeg_filter n cp s =
           (filter_stages (heap s @ [ODict (merge_overrides d cp)]) (merge_overrides d cp),
            s\<lparr>heap := heap s @ [ODict (merge_overrides d cp)]\<rparr>)"
  using assms
  by (auto simp: build_ffmpeg_filter_def copy_object_def update_object_def alloc_def deref_def
        merge_overrides_def dict_update_def nth_append split: option.splits)

lemma build_catalog_unchanged:
  "catalog (snd (build_ffmpeg_filter n cp s)) = catalog s"
proof (cases "map_of (catalog s) n")
  case None
  then show ?thesis by (simp add: build_unknown)
next
  case (Some v)
  then have "catalog s \<noteq> []" by auto
  then have l: "PRESETS s < length (heap s)"
    by (auto simp: catalog_def deref_def split: if_splits)
  from build_heap_grows [of n cp s] obtain objs where
    "heap (snd (build_ffmpeg_filter n cp s)) = heap s @ objs"
    "PRESETS (snd (build_ffmpeg_filter n cp s)) = PRESETS s" by blast
  with l show ?thesis by (simp add: catalog_def deref_def nth_append)
qed

lemma clean_whisper_chain:
  "fst (build_ffmpeg_filter ''clean_whisper'' None initial_state) =
     Inr [Highpass (VInt 50), Lowpass (VInt 4000), Afftdn (VFloat (2 / 10)) (- 20) ''w'',
          Acompressor (VFloat (- 24)) (VFloat (24 / 10)) 10 100 2 2,
          Equalizer (VInt 250) ''o'' (VInt 2) None,
          Equalizer (VInt 500) ''o'' (VInt 3) None,
          Equalizer (VInt 1000) ''o'' (VInt 2) None,
          Equalizer (VInt 1000) ''o'' (VInt 2) (Some 800),
          Alimiter 1 (95 / 100) (95 / 100), Volume (12 / 10)]"
  by code_simp


lemma clean_whisper_entry:
  "map_of (catalog initial_state) ''clean_whisper'' = Some (VRef 28)"
  "deref (heap initial_state) 28 = Some (ODict clean_whisper_dict)"
  "length (heap initial_state) = 34"
  by code_simp+

text \<open>Claim C2, as the code has it. The chain of the preset \<open>clean_whisper\<close> of the
  module is the high-pass at 50, the low-pass at 4000, the noise reduction with 0.2, the
  compressor, the three band equalizers, the voice emphasis with gain 2, the limiter and
  the fixed gain, in this order: ten stages.\<close>

theorem clean_whisper_chain_has_ten_stages:
  "\<exists>chain. fst (build_ffmpeg_filter ''clean_whisper'' None initial_state) = Inr chain \<and>
     chain =
       [Highpass (VInt 50), Lowpass (VInt 4000), Afftdn (VFloat (2 / 10)) (- 20) ''w'',
        Acompressor (VFloat (- 25 + 4 / 4)) (VFloat (2 + 4 / 10)) 10 100 2 2,
        Equalizer (VInt 250) ''o'' (VInt 2) None,
        Equalizer (VInt 500) ''o'' (VInt 3) None,
        Equalizer (VInt 1000) ''o'' (VInt 2) None,
        Equalizer (VInt 1000) ''o'' (VInt 2) (Some 800),
        limiter, output_gain] \<and>
     length chain = 10"
  by (simp add: clean_whisper_chain limiter_def output_gain_def)

text \<open>Claim C2 as stated fails: the chain of \<open>clean_whisper\<close> does not have nine
  stages.\<close>

theorem clean_whisper_chain_nine_stages_counterexample:
  "\<not> (\<exists>chain. fst (build_ffmpeg_filter ''clean_whisper'' None initial_state) = Inr chain \<and>
        length chain = 9)"
  by (simp add: clean_whisper_chain)

text \<open>Claim C8. The call leaves every object of the store as it was, the table
  \<open>PRESETS\<close> and its entries among them: the store only grows, by the copy of the entry.
  For a known name the chain is built from that copy, which holds the entry with the
  overrides stored over it; the entry itself still holds what it held.\<close>

theorem catalog_never_mutated:
  "PRESETS (snd (build_ffmpeg_filter n cp s)) = PRESETS s \<and>
   take (length (heap s)) (heap (snd (build_ffmpeg_filter n cp s))) = heap s \<and>
   catalog (snd (build_ffmpeg_filter n cp s)) = catalog s \<and>
   (\<forall>a d. map_of (catalog s) n = Some (VRef a) \<and> deref (heap s) a = Some (ODict d) \<longrightarrow>
      build_ffmpeg_filter n cp s =
        (filter_stages (heap s @ [ODict (merge_overrides d cp)]) (merge_overrides d cp),
         s\<lparr>heap := heap s @ [ODict (merge_overrides d cp)]\<rparr>) \<and>
      deref (heap (snd (build_ffmpeg_filter n cp s))) a = Some (ODict d) \<and>
      merge_overrides d None = d \<and>
      (\<forall>c. map_of (merge_overrides d (Some c)) = map_of d ++ map_of (rev c)))"
proof -
  from build_heap_grows [of n cp s] obtain objs where
    g: "heap (snd (build_ffmpeg_filter n cp s)) = heap s @ objs"
    "PRESETS (snd (build_ffmpeg_filter n cp s)) = PRESETS s" by blast
  have "deref (heap (snd (build_ffmpeg_filter n cp s))) a = Some (ODict d)"
    if "deref (heap s) a = Some (ODict d)" for a d
    using that g(1) by (auto simp: deref_def nth_append split: if_splits)
  with g build_catalog_unchanged [of n cp s] show ?thesis
    by (auto simp: build_known merge_overrides_def map_of_dict_update)
qed

text \<open>Claim C8 at the preset \<open>clean_whisper\<close> of the module with two overrides.\<close>

theorem catalog_never_mutated_witness:
  "map_of (catalog initial_state) ''clean_whisper'' = Some (VRef 28) \<and>
   deref (heap initial_state) 28 = Some (ODict clean_whisper_dict) \<and>
   take 34 (heap (snd (build_ffmpeg_filter ''clean_whisper'' (Some sample_overrides)
      initial_state))) = heap initial_state \<and>
   deref (heap (snd (build_ffmpeg_filter ''clean_whisper'' (Some sample_overrides)
      initial_state))) 28 = Some (ODict clean_whisper_dict) \<and>
   deref (heap (snd (build_ffmpeg_filter ''clean_whisper'' (Some sample_overrides)
      initial_state))) 34 =
     Some (ODict
       [(''name'', VStr ''Clean Whisper''),
        (''description'', VStr ''Minimal processing for very clean whisper enhancement''),
        (''highpass'', VInt 0),
        (''lowpass'', VInt 8000),
        (''noise_reduction'', VFloat (2 / 10)),
        (''dynamic_boost'', VInt 4),
        (''voice_emphasis'', VInt 2),
        (''eq_bands'', VRef 27)])"
  using catalog_never_mutated [of "''clean_whisper''" "Some sample_overrides" initial_state]
    clean_whisper_entry
  by (simp add: deref_def merge_overrides_def dict_update_def sample_overrides_def
        clean_whisper_dict_def nth_append)

section \<open>Properties of the request handler\<close>

lemma split_slash_nonempty: "split_slash s \<noteq> []"
  by (induction s) (auto split: list.splits)

lemma parts_first:
  assumes "c \<noteq> CHR ''/''" and "c \<noteq> CHR ''.''"
  shows "\<exists>p ps. parts (c # cs) = (c # p) # ps"
proof -
  obtain p ps where "split_slash cs = p # ps"
    using split_slash_nonempty [of cs] by (cases "split_slash cs") auto
  with assms show ?thesis by (simp add: parts_def)
qed

lemma input_path_first:
  "\<exists>p ps. input_path t fn = TEMP_DIR @ (CHR ''i'' # p) # ps"
proof -
  have "\<exists>p ps. parts (CHR ''i'' # ''nput_'' @ strftime t @ ''_'' @ fstr fn) = (CHR ''i'' # p) # ps"
    by (rule parts_first) simp_all
  then show ?thesis by (auto simp: input_path_def path_div_def)
qed

lemma output_path_first:
  "\<exists>p ps. output_path t = TEMP_DIR @ (CHR ''o'' # p) # ps"
proof -
  have "\<exists>p ps. parts (CHR ''o'' # ''utput_'' @ strftime t @ ''.wav'') = (CHR ''o'' # p) # ps"
    by (rule parts_first) simp_all
  then show ?thesis by (auto simp: output_path_def path_div_def)
qed

lemma input_output_distinct: "input_path t fn \<noteq> output_path t'"
  using input_path_first [of t fn] output_path_first [of t'] by auto



lemma cleanup_keeps: "runs (cleanup e inp w) = runs w" "python (cleanup e inp w) = python w"
  "p \<noteq> inp \<Longrightarrow> files (cleanup e inp w) p = files w p"
  "unlink_ok e \<Longrightarrow> files (cleanup e inp w) inp = None"
  by (auto simp: cleanup_def split: option.splits)

lemma process_audio_unfold:
  "process_audio e file preset w =
     (fst (handle_upload e file preset (input_path (now e) (filename file))
             (output_path (now e)) w),
      cleanup e (input_path (now e) (filename file))
        (snd (handle_upload e file preset (input_path (now e) (filename file))
             (output_path (now e)) w)))"
  by (simp add: process_audio_def Let_def split: prod.splits)

lemma process_audio_file_Success:
  assumes "process_audio_file e inp outp preset cp w = (Success d t n used chain, w')"
  shows "\<exists>pr c. ffmpeg_run e = Inr pr \<and> returncode pr = 0 \<and> files w' outp = Some c \<and>
           n = length c \<and> fst (build_ffmpeg_filter preset cp (python w)) = Inr chain \<and>
           runs w' = runs w @ [Ffprobe inp, FfmpegTransform inp chain outp]"
  using assms
  by (auto simp: process_audio_file_def run_transform_def Let_def
           split: sum.splits prod.splits option.splits if_splits)

lemma process_audio_file_transformed:
  assumes "process_audio_file e inp outp preset cp w = (res, w')"
    and "runs w' = runs w @ [Ffprobe inp, FfmpegTransform inp chain outp]"
  shows "\<exists>d. res =
     (case ffmpeg_run e of
        Inl x \<Rightarrow> Failure x
      | Inr pr \<Rightarrow>
          if returncode pr \<noteq> 0
          then Failure (Exception (''FFmpeg processing failed: '' @ stderr pr))
          else (case files w' outp of
                  None \<Rightarrow> Failure (Exception (''Output file was not created: '' @ path_str outp))
                | Some c \<Rightarrow> Success d (processing_time e) (length c) preset chain))"
    and "\<forall>pr c. ffmpeg_run e = Inr pr \<and> ffmpeg_writes e = Some c \<longrightarrow> files w' outp = Some c"
  using assms
  by (auto simp: process_audio_file_def run_transform_def Let_def
           split: sum.splits prod.splits option.splits if_splits)

lemma handle_upload_cases:
  "(\<exists>x w'. handle_upload e file preset inp outp w = (Failed (HTTPException 500 x), w') \<and>
      (runs w' = runs w \<or> runs w' = runs w @ [FfmpegVersion]) \<and>
      (\<forall>p. p \<noteq> inp \<longrightarrow> files w' p = files w p)) \<or>
   (open_error e = None \<and> write_error e = None \<and> ffmpeg_available e \<and>
    handle_upload e file preset inp outp w =
      (case process_audio_file e inp outp preset None (upload_stored file inp w) of
         (Failure x, w4) \<Rightarrow> (Failed (HTTPException 500 (StrOf x)), w4)
       | (Success d t n used chain, w4) \<Rightarrow>
           (case files w4 outp of
              None \<Rightarrow> (Failed (HTTPException 500 (Text ''Output file was not created'')), w4)
            | Some c \<Rightarrow>
                if c = [] then (Failed (HTTPException 500 (Text ''Output file is empty'')), w4)
                else (Completed (FileResponse outp ''audio/wav''
                        (''processed_'' @ fstr (filename file))), w4))))"
  by (auto simp: handle_upload_def upload_stored_def Let_def
           split: option.splits prod.splits file_result.splits)

lemma upload_stored_simps:
  "runs (upload_stored file inp w) = runs w @ [FfmpegVersion]"
  "python (upload_stored file inp w) = python w"
  "p \<noteq> inp \<Longrightarrow> files (upload_stored file inp w) p = files w p"
  by (simp_all add: upload_stored_def)

lemma handle_upload_Completed:
  assumes "handle_upload e file preset inp outp w = (Completed resp, w')"
  shows "\<exists>pr c chain. ffmpeg_run e = Inr pr \<and> returncode pr = 0 \<and>
           files w' outp = Some c \<and> c \<noteq> [] \<and>
           resp = FileResponse outp ''audio/wav'' (''processed_'' @ fstr (filename file)) \<and>
           runs w' = runs w @ [FfmpegVersion, Ffprobe inp, FfmpegTransform inp chain outp]"
proof -
  obtain res w4 where p: "process_audio_file e inp outp preset None (upload_stored file inp w)
      = (res, w4)" by (cases "process_audio_file e inp outp preset None (upload_stored file inp w)")
  from handle_upload_cases [of e "file" preset inp outp w] assms p
  obtain d t n used chain c where res: "res = Success d t n used chain"
    and c: "files w4 outp = Some c" "c \<noteq> []"
    and r: "resp = FileResponse outp ''audio/wav'' (''processed_'' @ fstr (filename file))"
    and w': "w' = w4"
    by (auto split: file_result.splits option.splits if_splits)
  from process_audio_file_Success [OF p [unfolded res]] c r w'
  show ?thesis by (auto simp: upload_stored_simps)
qed

lemma handle_upload_transformed:
  assumes "handle_upload e file preset inp outp w = (out, w')"
    and "runs w' = runs w @ [FfmpegVersion, Ffprobe inp, FfmpegTransform inp chain outp]"
  shows "out =
     (case ffmpeg_run e of
        Inl x \<Rightarrow> Failed (HTTPException 500 (StrOf x))
      | Inr pr \<Rightarrow>
          if returncode pr \<noteq> 0
          then Failed (HTTPException 500
                 (StrOf (Exception (''FFmpeg processing failed: '' @ stderr pr))))
          else (case files w' outp of
                  None \<Rightarrow> Failed (HTTPException 500
                    (StrOf (Exception (''Output file was not created: '' @ path_str outp))))
                | Some c \<Rightarrow>
                    if c = [] then Failed (HTTPException 500 (Text ''Output file is empty''))
                    else Completed (FileResponse outp ''audio/wav''
                           (''processed_'' @ fstr (filename file)))))"
    and "\<forall>pr c. ffmpeg_run e = Inr pr \<and> ffmpeg_writes e = Some c \<longrightarrow> files w' outp = Some c"
proof -
  obtain res w4 where p: "process_audio_file e inp outp preset None (upload_stored file inp w)
      = (res, w4)" by (cases "process_audio_file e inp outp preset None (upload_stored file inp w)")
  from handle_upload_cases [of e "file" preset inp outp w] assms
  have h: "handle_upload e file preset inp outp w =
      (case process_audio_file e inp outp preset None (upload_stored file inp w) of
         (Failure x, w4) \<Rightarrow> (Failed (HTTPException 500 (StrOf x)), w4)
       | (Success d t n used chain, w4) \<Rightarrow>
           (case files w4 outp of
              None \<Rightarrow> (Failed (HTTPException 500 (Text ''Output file was not created'')), w4)
            | Some c \<Rightarrow>
                if c = [] then (Failed (HTTPException 500 (Text ''Output file is empty'')), w4)
                else (Completed (FileResponse outp ''audio/wav''
                        (''processed_'' @ fstr (filename file))), w4)))"
    by auto
  from h p assms(1) have w': "w' = w4"
    by (auto split: file_result.splits option.splits if_splits)
  from assms(2) w' have r: "runs w4 = runs (upload_stored file inp w) @
      [Ffprobe inp, FfmpegTransform inp chain outp]"
    by (simp add: upload_stored_simps)
  note t = process_audio_file_transformed [OF p r]
  from t(1) obtain d where d: "res =
     (case ffmpeg_run e of
        Inl x \<Rightarrow> Failure x
      | Inr pr \<Rightarrow>
          if returncode pr \<noteq> 0
          then Failure (Exception (''FFmpeg processing failed: '' @ stderr pr))
          else (case files w4 outp of
                  None \<Rightarrow> Failure (Exception (''Output file was not created: '' @ path_str outp))
                | Some c \<Rightarrow> Success d (processing_time e) (length c) preset chain))"
    by blast
  from d h p assms(1) w'
  show "out =
     (case ffmpeg_run e of
        Inl x \<Rightarrow> Failed (HTTPException 500 (StrOf x))
      | Inr pr \<Rightarrow>
          if returncode pr \<noteq> 0
          then Failed (HTTPException 500
                 (StrOf (Exception (''FFmpeg processing failed: '' @ stderr pr))))
          else (case files w' outp of
                  None \<Rightarrow> Failed (HTTPException 500
                    (StrOf (Exception (''Output file was not created: '' @ path_str outp))))
                | Some c \<Rightarrow>
                    if c = [] then Failed (HTTPException 500 (Text ''Output file is empty''))
                    else Completed (FileResponse outp ''audio/wav''
                           (''processed_'' @ fstr (filename file)))))"
    by (auto split: sum.splits file_result.splits option.splits if_splits)
  from t(2) w'
  show "\<forall>pr c. ffmpeg_run e = Inr pr \<and> ffmpeg_writes e = Some c \<longrightarrow> files w' outp = Some c"
    by blast
qed


lemma digit_no_slash: "digit n \<noteq> CHR ''/''" "CHR ''/'' \<noteq> digit n"
proof -
  have "digit n \<in> set ''0123456789''"
    unfolding digit_def by (rule nth_mem) simp
  then show "digit n \<noteq> CHR ''/''" by auto
  then show "CHR ''/'' \<noteq> digit n" by (rule not_sym)
qed

lemma strftime_no_slash: "CHR ''/'' \<notin> set (strftime t)"
  by (simp add: strftime_def pad2_def pad4_def digit_no_slash)

lemma split_slash_prepend:
  "CHR ''/'' \<notin> set a \<Longrightarrow>
     split_slash (a @ b) = (a @ hd (split_slash b)) # tl (split_slash b)"
  using split_slash_nonempty [of b]
  by (induction a) (auto split: list.splits)

lemma escaping_name_path:
  "input_path t (Some ''x/../../evil.wav'') =
     TEMP_DIR @ [''input_'' @ strftime t @ ''_x'', ''..'', ''..'', ''evil.wav'']"
proof -
  have "split_slash ((''input_'' @ strftime t @ ''_x'') @ ''/../../evil.wav'') =
      [''input_'' @ strftime t @ ''_x'', ''..'', ''..'', ''evil.wav'']"
    using strftime_no_slash [of t] by (subst split_slash_prepend) auto
  then show ?thesis
    by (simp add: input_path_def path_div_def parts_def fstr_def)
qed

lemma sample_paths:
  "input_path t0 (Some ''a.wav'') =
     [''tmp'', ''audio_processing'', ''input_20240101_120000_a.wav'']"
  "output_path t0 = [''tmp'', ''audio_processing'', ''output_20240101_120000.wav'']"
  by code_simp+

lemma sample_output_str:
  "path_str [''tmp'', ''audio_processing'', ''output_20240101_120000.wav''] =
     ''/tmp/audio_processing/output_20240101_120000.wav''"
  by (simp add: path_str_def)

lemmas handler_defs =
  process_audio_def handle_upload_def process_audio_file_def run_transform_def cleanup_def
  Let_def split_def healthy_env_def partial_env_def silent_env_def fresh_world_def
  sample_upload_def sample_paths sample_output_str fstr_def

lemma healthy_run:
  "fst (process_audio healthy_env sample_upload ''clean_whisper'' fresh_world) =
     Completed (FileResponse [''tmp'', ''audio_processing'', ''output_20240101_120000.wav'']
       ''audio/wav'' ''processed_a.wav'')"
  "runs (snd (process_audio healthy_env sample_upload ''clean_whisper'' fresh_world)) =
     [FfmpegVersion,
      Ffprobe [''tmp'', ''audio_processing'', ''input_20240101_120000_a.wav''],
      FfmpegTransform [''tmp'', ''audio_processing'', ''input_20240101_120000_a.wav'']
        [Highpass (VInt 50), Lowpass (VInt 4000), Afftdn (VFloat (2 / 10)) (- 20) ''w'',
         Acompressor (VFloat (- 24)) (VFloat (24 / 10)) 10 100 2 2,
         Equalizer (VInt 250) ''o'' (VInt 2) None,
         Equalizer (VInt 500) ''o'' (VInt 3) None,
         Equalizer (VInt 1000) ''o'' (VInt 2) None,
         Equalizer (VInt 1000) ''o'' (VInt 2) (Some 800),
         Alimiter 1 (95 / 100) (95 / 100), Volume (12 / 10)]
        [''tmp'', ''audio_processing'', ''output_20240101_120000.wav'']]"
  "files (snd (process_audio healthy_env sample_upload ''clean_whisper'' fresh_world))
     [''tmp'', ''audio_processing'', ''output_20240101_120000.wav''] = Some ''RIFF''"
  by (simp_all add: handler_defs clean_whisper_chain)


lemma silent_run:
  "fst (process_audio silent_env sample_upload ''clean_whisper'' fresh_world) =
     Failed (HTTPException 500 (StrOf (Exception
       ''Output file was not created: /tmp/audio_processing/output_20240101_120000.wav'')))"
  by (simp add: handler_defs clean_whisper_chain)








text \<open>Claim C6, as the code has it. The handler completes only if the transform has
  exited with 0 and its output path holds a file that is not empty; the response is then
  the file at the output path. Once the transform has been run, every other case is an
  error of status 500 and no file is returned: an exit code other than 0 gives the
  standard error of the tool in the detail, a missing output gives a text that names the
  output path, and an empty output gives a fixed text.\<close>

theorem completed_requires_transform_success:
  assumes "process_audio e file preset w = (out, w')"
  shows "(\<forall>resp. out = Completed resp \<longrightarrow>
            (\<exists>pr c chain. ffmpeg_run e = Inr pr \<and> returncode pr = 0 \<and>
               files w' (output_path (now e)) = Some c \<and> c \<noteq> [] \<and>
               resp = FileResponse (output_path (now e)) ''audio/wav''
                        (''processed_'' @ fstr (filename file)) \<and>
               runs w' = runs w @
                 [FfmpegVersion, Ffprobe (input_path (now e) (filename file)),
                  FfmpegTransform (input_path (now e) (filename file)) chain
                    (output_path (now e))])) \<and>
         (\<forall>chain.
            runs w' = runs w @
              [FfmpegVersion, Ffprobe (input_path (now e) (filename file)),
               FfmpegTransform (input_path (now e) (filename file)) chain
                 (output_path (now e))] \<longrightarrow>
            out =
              (case ffmpeg_run e of
                 Inl x \<Rightarrow> Failed (HTTPException 500 (StrOf x))
               | Inr pr \<Rightarrow>
                   if returncode pr \<noteq> 0
                   then Failed (HTTPException 500
                          (StrOf (Exception (''FFmpeg processing failed: '' @ stderr pr))))
                   else (case files w' (output_path (now e)) of
                           None \<Rightarrow> Failed (HTTPException 500
                             (StrOf (Exception (''Output file was not created: '' @
                                path_str (output_path (now e))))))
                         | Some c \<Rightarrow>
                             if c = []
                             then Failed (HTTPException 500 (Text ''Output file is empty''))
                             else Completed (FileResponse (output_path (now e)) ''audio/wav''
                                    (''processed_'' @ fstr (filename file))))))"
proof -
  let ?inp = "input_path (now e) (filename file)" and ?outp = "output_path (now e)"
  obtain o1 w1 where h: "handle_upload e file preset ?inp ?outp w = (o1, w1)"
    by (cases "handle_upload e file preset ?inp ?outp w")
  from assms h have out: "out = o1" and w': "w' = cleanup e ?inp w1"
    by (simp_all add: process_audio_unfold)
  have d: "?outp \<noteq> ?inp" using input_output_distinct [of "now e" "filename file" "now e"]
    by simp
  have f: "files w' ?outp = files w1 ?outp" and r: "runs w' = runs w1"
    using d by (simp_all add: w' cleanup_keeps)
  have a: "\<exists>pr c chain. ffmpeg_run e = Inr pr \<and> returncode pr = 0 \<and>
               files w' ?outp = Some c \<and> c \<noteq> [] \<and>
               resp = FileResponse ?outp ''audio/wav'' (''processed_'' @ fstr (filename file)) \<and>
               runs w' = runs w @ [FfmpegVersion, Ffprobe ?inp, FfmpegTransform ?inp chain ?outp]"
    if "out = Completed resp" for resp
    using handle_upload_Completed [OF h [folded out, unfolded that]] f r by simp
  have b: "out =
              (case ffmpeg_run e of
                 Inl x \<Rightarrow> Failed (HTTPException 500 (StrOf x))
               | Inr pr \<Rightarrow>
                   if returncode pr \<noteq> 0
                   then Failed (HTTPException 500
                          (StrOf (Exception (''FFmpeg processing failed: '' @ stderr pr))))
                   else (case files w' ?outp of
                           None \<Rightarrow> Failed (HTTPException 500
                             (StrOf (Exception (''Output file was not created: '' @
                                path_str ?outp))))
                         | Some c \<Rightarrow>
                             if c = []
                             then Failed (HTTPException 500 (Text ''Output file is empty''))
                             else Completed (FileResponse ?outp ''audio/wav''
                                    (''processed_'' @ fstr (filename file)))))"
    if "runs w' = runs w @ [FfmpegVersion, Ffprobe ?inp, FfmpegTransform ?inp chain ?outp]"
    for chain
    using handle_upload_transformed(1) [OF h that [unfolded r]] unfolding out f .
  from a b show ?thesis by blast
qed

text \<open>Claim C6 at a request that completes.\<close>

theorem completed_requires_transform_success_witness:
  "fst (process_audio healthy_env sample_upload ''clean_whisper'' fresh_world) =
     Completed (FileResponse (output_path t0) ''audio/wav'' ''processed_a.wav'') \<and>
   (\<exists>pr c. ffmpeg_run healthy_env = Inr pr \<and> returncode pr = 0 \<and>
      files (snd (process_audio healthy_env sample_upload ''clean_whisper'' fresh_world))
        (output_path t0) = Some c \<and> c \<noteq> [])"
proof -
  have e: "now healthy_env = t0"
    "ffmpeg_run healthy_env = Inr \<lparr>returncode = 0, stdout = [], stderr = []\<rparr>"
    by (simp_all add: healthy_env_def)
  from completed_requires_transform_success
    [of healthy_env sample_upload "''clean_whisper''" fresh_world
      "fst (process_audio healthy_env sample_upload ''clean_whisper'' fresh_world)"
      "snd (process_audio healthy_env sample_upload ''clean_whisper'' fresh_world)"]
    e healthy_run
  show ?thesis by (simp add: sample_upload_def sample_paths fresh_world_def fstr_def)
qed

text \<open>Claim C6 as stated fails: the transform below exits with 0, prints \<open>boom\<close> and
  writes no output; the request fails, and the error names the output path and carries
  nothing of what the tool printed.\<close>

theorem missing_output_error_without_diagnostics_counterexample:
  "ffmpeg_run silent_env = Inr \<lparr>returncode = 0, stdout = [], stderr = ''boom''\<rparr> \<and>
   fst (process_audio silent_env sample_upload ''clean_whisper'' fresh_world) =
     Failed (HTTPException 500 (StrOf (Exception
       ''Output file was not created: /tmp/audio_processing/output_20240101_120000.wav'')))"
  using silent_run by (simp add: silent_env_def healthy_env_def)

text \<open>Claim C9 on the code. The scratch paths do not depend on the microsecond of the
  clock: two requests that arrive within the same second and upload a file of the same
  name get the same scratch input, and any two requests of the same second get the same
  scratch output.\<close>

theorem same_second_requests_share_scratch_paths:
  "t0 \<noteq> t0\<lparr>microsecond := 500000\<rparr> \<and>
   input_path t0 (Some ''a.wav'') =
     input_path (t0\<lparr>microsecond := 500000\<rparr>) (Some ''a.wav'') \<and>
   output_path t0 = output_path (t0\<lparr>microsecond := 500000\<rparr>) \<and>
   input_path (t\<lparr>microsecond := m\<rparr>) fn = input_path t fn \<and>
   output_path (t\<lparr>microsecond := m\<rparr>) = output_path t"
  by (simp add: input_path_def output_path_def strftime_def t0_def)

text \<open>Claim C10. The scratch input is the scratch directory joined with the text
  \<open>input_\<close>, the time stamp, an underscore and the file name as the client sent it.
  The name \<open>x/../../evil.wav\<close> gives, at any time, a path that resolves to
  \<open>/tmp/evil.wav\<close>, outside the scratch directory: not every derived path lies inside
  it.\<close>

theorem input_path_escapes_scratch_directory:
  "input_path t (Some name) = path_div TEMP_DIR (''input_'' @ strftime t @ ''_'' @ name) \<and>
   input_path t (Some ''x/../../evil.wav'') =
     TEMP_DIR @ [''input_'' @ strftime t @ ''_x'', ''..'', ''..'', ''evil.wav''] \<and>
   normpath (input_path t (Some ''x/../../evil.wav'')) = [''tmp'', ''evil.wav''] \<and>
   \<not> inside TEMP_DIR (input_path t (Some ''x/../../evil.wav'')) \<and>
   \<not> (\<forall>t' name'. inside TEMP_DIR (input_path t' name'))"
proof -
  have p: "input_path t' (Some ''x/../../evil.wav'') =
      TEMP_DIR @ [''input_'' @ strftime t' @ ''_x'', ''..'', ''..'', ''evil.wav'']" for t'
    by (rule escaping_name_path)
  have n: "normpath (input_path t' (Some ''x/../../evil.wav'')) = [''tmp'', ''evil.wav'']"
    for t'
    by (simp add: p normpath_def TEMP_DIR_def)
  have i: "\<not> inside TEMP_DIR (input_path t' (Some ''x/../../evil.wav''))" for t'
    by (simp add: inside_def n TEMP_DIR_def)
  have d: "input_path t (Some name) =
      path_div TEMP_DIR (''input_'' @ strftime t @ ''_'' @ name)"
    by (simp add: input_path_def fstr_def)
  have l: "\<not> (\<forall>t' name'. inside TEMP_DIR (input_path t' name'))"
    using i by blast
  show ?thesis
    by (intro conjI) (fact d, rule p, rule n, rule i, fact l)
qed

end
